theory Spec2Isabelle
  imports Main "HOL-Library.AList"
begin

section \<open>JavaScript values\<close>

text \<open>
  Values that arrive as JSON (webhook payloads, vendor answers) are \<open>jsval\<close>; the
  JavaScript value \<open>undefined\<close> is \<open>None :: jsval option\<close>. Numbers are the integers
  (a JavaScript number holding an integer prints in decimal); arrays do not occur in any
  field the modelled code reads.
\<close>

datatype jsval =
    JNull
  | JBool bool
  | JNum int
  | JStr string
  | JObj "(string \<times> jsval) list"

datatype js_error = Error string | TypeError string | SyntaxError string

fun message :: "js_error \<Rightarrow> string" where
  "message (Error m) = m"
| "message (TypeError m) = m"
| "message (SyntaxError m) = m"

fun truthy :: "jsval option \<Rightarrow> bool" where
  "truthy None = False"
| "truthy (Some JNull) = False"
| "truthy (Some (JBool b)) = b"
| "truthy (Some (JNum n)) = (n \<noteq> 0)"
| "truthy (Some (JStr s)) = (s \<noteq> [])"
| "truthy (Some (JObj fs)) = True"

fun show_nat :: "nat \<Rightarrow> string" where
  "show_nat n =
     (if n < 10 then [char_of (48 + n)]
      else show_nat (n div 10) @ [char_of (48 + n mod 10)])"

declare show_nat.simps [simp del]

definition show_int :: "int \<Rightarrow> string" where
  "show_int i = (if i < 0 then CHR ''-'' # show_nat (nat (- i)) else show_nat (nat i))"

text \<open>String conversion as a template literal performs it.\<close>

fun to_string :: "jsval option \<Rightarrow> string" where
  "to_string None = ''undefined''"
| "to_string (Some JNull) = ''null''"
| "to_string (Some (JBool b)) = (if b then ''true'' else ''false'')"
| "to_string (Some (JNum n)) = show_int n"
| "to_string (Some (JStr s)) = s"
| "to_string (Some (JObj fs)) = ''[object Object]''"

text \<open>Property read \<open>v.k\<close> on a value that is not \<open>null\<close>: a primitive has none of
  the properties read here.\<close>

fun js_prop :: "jsval \<Rightarrow> string \<Rightarrow> jsval option" where
  "js_prop (JObj fs) k = map_of fs k"
| "js_prop v k = None"

text \<open>Property read that may hit \<open>null\<close>, where JavaScript throws a TypeError.\<close>

definition get_prop :: "jsval \<Rightarrow> string \<Rightarrow> js_error + jsval option" where
  "get_prop v k =
     (case v of
        JNull \<Rightarrow> Inl (TypeError (''Cannot read properties of null (reading ''
                   @ [CHR 0x27] @ k @ [CHR 0x27] @ '')''))
      | _ \<Rightarrow> Inr (js_prop v k))"

text \<open>\<open>a || b\<close> with a constant right operand.\<close>

definition js_or :: "jsval option \<Rightarrow> jsval \<Rightarrow> jsval" where
  "js_or a b = (case a of Some v \<Rightarrow> (if truthy (Some v) then v else b) | None \<Rightarrow> b)"

section \<open>The record store\<close>

datatype esim_status =
  PENDING_ACTIVATION | ACTIVE | SUSPENDED | CANCELLED | EXPIRED | REVOKED | DEACTIVATED

text \<open>A timestamp column holds either what \<open>new Date()\<close> gave or a value taken from
  the vendor's payload.\<close>

datatype stamp = At nat | Vendor jsval

record esim =
  row_id :: string
  order_id :: string
  user_id :: string
  product_id :: string
  iccid :: string
  activation_code :: string
  status :: esim_status
  qr_code :: string
  metadata :: "(string \<times> jsval) list"
  created_at :: nat
  updated_at :: nat
  activated_at :: "stamp option"
  deactivated_at :: "stamp option"
  deactivation_reason :: "jsval option"

record system_log =
  level :: string
  service :: string
  log_message :: string
  log_metadata :: jsval
  log_created_at :: nat

record activation_log =
  esim_id :: "jsval option"
  action :: string
  log_user_id :: "string option"
  act_metadata :: jsval
  act_created_at :: nat

record notification =
  note_user_id :: "string option"
  note_type :: string
  title :: string
  note_message :: string
  note_metadata :: jsval
  note_created_at :: nat

record order_row =
  order_row_id :: string
  order_user_id :: string

datatype statement =
    InsertSystemLog
  | UpdateEsims
  | InsertEsim
  | InsertActivationLog
  | InsertUserNotification
  | InsertSystemNotification

datatype log_meta = NoMeta | Val "jsval option" | Exn js_error

datatype logline = LogInfo string log_meta | LogError string log_meta

text \<open>
  The world a request handler runs in: the tables of the record store, the statements
  applied to it in order (\<open>journal\<close>), and the lines written by the application logger.
  When the store is not \<open>available\<close>, a statement returns an error and changes nothing,
  and a query returns no data.
\<close>

record world =
  available :: bool
  esims :: "esim list"
  orders :: "order_row list"
  system_logs :: "system_log list"
  esim_activation_logs :: "activation_log list"
  user_notifications :: "notification list"
  system_notifications :: "notification list"
  journal :: "statement list"
  logger :: "logline list"

definition store_error :: string where
  "store_error = ''store unavailable''"

definition update_esims ::
  "(esim \<Rightarrow> bool) \<Rightarrow> (esim \<Rightarrow> esim) \<Rightarrow> world \<Rightarrow> string option \<times> world" where
  "update_esims flt upd w =
     (if available w
      then (None, w\<lparr>esims := map (\<lambda>e. if flt e then upd e else e) (esims w),
                     journal := journal w @ [UpdateEsims]\<rparr>)
      else (Some store_error, w))"

definition insert_system_log :: "system_log \<Rightarrow> world \<Rightarrow> string option \<times> world" where
  "insert_system_log r w =
     (if available w
      then (None, w\<lparr>system_logs := system_logs w @ [r],
                     journal := journal w @ [InsertSystemLog]\<rparr>)
      else (Some store_error, w))"

definition insert_activation_log :: "activation_log \<Rightarrow> world \<Rightarrow> string option \<times> world" where
  "insert_activation_log r w =
     (if available w
      then (None, w\<lparr>esim_activation_logs := esim_activation_logs w @ [r],
                     journal := journal w @ [InsertActivationLog]\<rparr>)
      else (Some store_error, w))"

definition insert_user_notification :: "notification \<Rightarrow> world \<Rightarrow> string option \<times> world" where
  "insert_user_notification r w =
     (if available w
      then (None, w\<lparr>user_notifications := user_notifications w @ [r],
                     journal := journal w @ [InsertUserNotification]\<rparr>)
      else (Some store_error, w))"

definition insert_system_notification :: "notification \<Rightarrow> world \<Rightarrow> string option \<times> world" where
  "insert_system_notification r w =
     (if available w
      then (None, w\<lparr>system_notifications := system_notifications w @ [r],
                     journal := journal w @ [InsertSystemNotification]\<rparr>)
      else (Some store_error, w))"

text \<open>\<open>.single()\<close>: data only when exactly one row matches.\<close>

definition single :: "'a list \<Rightarrow> 'a option" where
  "single rows = (case rows of [r] \<Rightarrow> Some r | _ \<Rightarrow> None)"

definition select_esims :: "(esim \<Rightarrow> bool) \<Rightarrow> world \<Rightarrow> esim list" where
  "select_esims flt w = (if available w then filter flt (esims w) else [])"

text \<open>\<open>.eq('iccid', v)\<close>: the filter value is sent as text.\<close>

definition eq_iccid :: "jsval option \<Rightarrow> esim \<Rightarrow> bool" where
  "eq_iccid v e = (iccid e = to_string v)"

definition log_info :: "string \<Rightarrow> log_meta \<Rightarrow> world \<Rightarrow> world" where
  "log_info m x w = w\<lparr>logger := logger w @ [LogInfo m x]\<rparr>"

definition log_error :: "string \<Rightarrow> log_meta \<Rightarrow> world \<Rightarrow> world" where
  "log_error m x w = w\<lparr>logger := logger w @ [LogError m x]\<rparr>"

section \<open>Webhook handlers\<close>

text \<open>Each handler receives the time \<open>now\<close> that \<open>new Date()\<close> returns while it runs.\<close>

definition handleProfileActivated :: "nat \<Rightarrow> jsval \<Rightarrow> world \<Rightarrow> world" where
  "handleProfileActivated now data w =
     (let profileId = js_prop data ''profileId'';
          iccid_v = js_prop data ''iccid'';
          activationTime = js_prop data ''activationTime'';
          (error, w1) = update_esims (eq_iccid iccid_v)
             (\<lambda>e. e\<lparr>status := ACTIVE,
                     activated_at := Some (case activationTime of
                         Some v \<Rightarrow> (if truthy (Some v) then Vendor v else At now)
                       | None \<Rightarrow> At now),
                     updated_at := now\<rparr>) w
      in case error of
           Some err \<Rightarrow> log_error ''Failed to update activated eSIM:'' (Val (Some (JStr err))) w1
         | None \<Rightarrow>
             log_info (''eSIM '' @ to_string iccid_v @ '' activated successfully'') NoMeta
               (snd (insert_activation_log
                  \<lparr>esim_id = profileId, action = ''ACTIVATED'', log_user_id = None,
                   act_metadata = data, act_created_at = now\<rparr> w1)))"

text \<open>An object literal with an \<open>undefined\<close> property is stored without that key.\<close>

definition handleProfileSuspended :: "nat \<Rightarrow> jsval \<Rightarrow> world \<Rightarrow> world" where
  "handleProfileSuspended now data w =
     (let iccid_v = js_prop data ''iccid'';
          reason = js_prop data ''reason''
      in snd (update_esims (eq_iccid iccid_v)
           (\<lambda>e. e\<lparr>status := SUSPENDED,
                   metadata := (case reason of
                       Some r \<Rightarrow> [(''suspension_reason'', r)]
                     | None \<Rightarrow> []),
                   updated_at := now\<rparr>) w))"

definition handleProfileUnsuspended :: "nat \<Rightarrow> jsval \<Rightarrow> world \<Rightarrow> world" where
  "handleProfileUnsuspended now data w =
     (let iccid_v = js_prop data ''iccid''
      in snd (update_esims (eq_iccid iccid_v)
           (\<lambda>e. e\<lparr>status := ACTIVE,
                   metadata := [(''suspension_reason'', JNull)],
                   updated_at := now\<rparr>) w))"

definition handleProfileCancelled :: "nat \<Rightarrow> jsval \<Rightarrow> world \<Rightarrow> world" where
  "handleProfileCancelled now data w =
     (let iccid_v = js_prop data ''iccid'';
          reason = js_prop data ''reason''
      in snd (update_esims (eq_iccid iccid_v)
           (\<lambda>e. e\<lparr>status := CANCELLED,
                   deactivated_at := Some (At now),
                   deactivation_reason := Some (js_or reason (JStr ''Cancelled by provider'')),
                   updated_at := now\<rparr>) w))"

definition handleProfileExpired :: "nat \<Rightarrow> jsval \<Rightarrow> world \<Rightarrow> world" where
  "handleProfileExpired now data w =
     (let iccid_v = js_prop data ''iccid''
      in snd (update_esims (eq_iccid iccid_v)
           (\<lambda>e. e\<lparr>status := EXPIRED, updated_at := now\<rparr>) w))"

definition handleProfileRevoked :: "nat \<Rightarrow> jsval \<Rightarrow> world \<Rightarrow> world" where
  "handleProfileRevoked now data w =
     (let iccid_v = js_prop data ''iccid'';
          reason = js_prop data ''reason''
      in snd (update_esims (eq_iccid iccid_v)
           (\<lambda>e. e\<lparr>status := REVOKED,
                   deactivated_at := Some (At now),
                   deactivation_reason := Some (js_or reason (JStr ''Revoked by provider'')),
                   updated_at := now\<rparr>) w))"

text \<open>An object literal as it is stored: properties that are \<open>undefined\<close> are dropped.\<close>

fun obj_of :: "(string \<times> jsval option) list \<Rightarrow> (string \<times> jsval) list" where
  "obj_of [] = []"
| "obj_of ((k, None) # kvs) = obj_of kvs"
| "obj_of ((k, Some v) # kvs) = (k, v) # obj_of kvs"

definition handleUsageThreshold :: "nat \<Rightarrow> jsval \<Rightarrow> world \<Rightarrow> world" where
  "handleUsageThreshold now data w =
     (let iccid_v = js_prop data ''iccid'';
          usage = js_prop data ''usage'';
          threshold = js_prop data ''threshold'';
          remaining = js_prop data ''remaining''
      in case single (select_esims (eq_iccid iccid_v) w) of
           Some e \<Rightarrow>
             snd (insert_user_notification
               \<lparr>note_user_id = Some (user_id e), note_type = ''USAGE_THRESHOLD'',
                title = ''Data Usage Alert'',
                note_message = ''You have used '' @ to_string usage @ ''GB of data. ''
                   @ to_string remaining @ ''GB remaining.'',
                note_metadata = JObj (obj_of [(''iccid'', iccid_v), (''usage'', usage),
                   (''threshold'', threshold), (''remaining'', remaining)]),
                note_created_at = now\<rparr> w)
         | None \<Rightarrow> w)"

definition handleBalanceLow :: "nat \<Rightarrow> jsval \<Rightarrow> world \<Rightarrow> world" where
  "handleBalanceLow now data w =
     (let balance = js_prop data ''balance'';
          threshold = js_prop data ''threshold''
      in snd (insert_system_notification
           \<lparr>note_user_id = None, note_type = ''BALANCE_LOW'',
            title = ''Account Balance Low'',
            note_message = ''Current balance: '' @ to_string balance @ '', threshold: ''
               @ to_string threshold,
            note_metadata = data,
            note_created_at = now\<rparr> w))"

text \<open>The \<open>switch\<close> of the webhook route; it compares with \<open>===\<close>.\<close>

definition dispatch :: "nat \<Rightarrow> jsval option \<Rightarrow> jsval \<Rightarrow> world \<Rightarrow> world" where
  "dispatch now ev data w =
     (if ev = Some (JStr ''profile.activated'') then handleProfileActivated now data w
      else if ev = Some (JStr ''profile.suspended'') then handleProfileSuspended now data w
      else if ev = Some (JStr ''profile.unsuspended'') then handleProfileUnsuspended now data w
      else if ev = Some (JStr ''profile.cancelled'') then handleProfileCancelled now data w
      else if ev = Some (JStr ''profile.expired'') then handleProfileExpired now data w
      else if ev = Some (JStr ''profile.revoked'') then handleProfileRevoked now data w
      else if ev = Some (JStr ''usage.threshold'') then handleUsageThreshold now data w
      else if ev = Some (JStr ''balance.low'') then handleBalanceLow now data w
      else log_info ''Unhandled webhook event:'' (Val ev) w)"

text \<open>What \<open>res.status(c).json({received, timestamp})\<close> or
  \<open>res.status(c).json({received, error})\<close> sends.\<close>

record reply =
  code :: nat
  received :: bool
  reply_timestamp :: "nat option"
  reply_error :: "string option"

definition ack :: "nat \<Rightarrow> reply" where
  "ack now = \<lparr>code = 200, received = True, reply_timestamp = Some now, reply_error = None\<rparr>"

definition ack_error :: "js_error \<Rightarrow> reply" where
  "ack_error e =
     \<lparr>code = 200, received = True, reply_timestamp = None, reply_error = Some (message e)\<rparr>"

text \<open>
  What the route finds in \<open>req.body\<close>. \<open>server.js\<close> installs \<open>express.json()\<close>
  for every request before it mounts the routers, so the \<open>express.raw(...)\<close> of the
  route finds the body parsed already and leaves it alone: a request with a JSON body
  arrives with the object or the array that the text stands for. A request with another
  kind of body arrives with the empty object, \<open>ObjectBody []\<close>, and a request whose
  JSON text \<open>express.json()\<close> refuses does not reach the route.

  \<open>JSON.parse\<close> converts its argument to a string first. An object becomes the text
  \<open>[object Object]\<close>, which is not JSON. An array becomes the text of its elements joined
  by commas; \<open>ArrayBody\<close> carries what \<open>JSON.parse\<close> makes of that text (for an array
  that holds one string, it parses that string).
\<close>

datatype request_body =
    ObjectBody "(string \<times> jsval) list"
  | ArrayBody "js_error + jsval"

text \<open>The error of \<open>JSON.parse('[object Object]')\<close>; the wording is the runtime's.\<close>

definition object_body_error :: js_error where
  "object_body_error = SyntaxError ''Unexpected token o in JSON at position 1''"

definition parse_body :: "request_body \<Rightarrow> js_error + jsval" where
  "parse_body body =
     (case body of
        ObjectBody kvs \<Rightarrow> Inl object_body_error
      | ArrayBody outcome \<Rightarrow> outcome)"

text \<open>The route \<open>POST /esim/webhook\<close>, from \<open>JSON.parse(req.body)\<close> on.\<close>

definition webhook :: "nat \<Rightarrow> request_body \<Rightarrow> world \<Rightarrow> reply \<times> world" where
  "webhook now body w =
     (case parse_body body of
        Inl e \<Rightarrow> (ack_error e, log_error ''Webhook processing error:'' (Exn e) w)
      | Inr webhookData \<Rightarrow>
          (let w1 = log_info ''Received ESIM webhook:'' (Val (Some webhookData)) w;
               w2 = snd (insert_system_log
                      \<lparr>level = ''info'', service = ''esim-webhook'',
                       log_message = ''Webhook received'', log_metadata = webhookData,
                       log_created_at = now\<rparr> w1)
           in case get_prop webhookData ''event'' of
                Inl e \<Rightarrow>
                  (ack_error e, log_error ''Webhook processing error:'' (Exn e) w2)
              | Inr ev \<Rightarrow> (ack now, dispatch now ev webhookData w2)))"

section \<open>Vendor service and order ledger\<close>

text \<open>
  The vendor and the order ledger are remote: their answers are inputs. \<open>services\<close>
  holds what the vendor client returns or throws for the balance request, for the order
  request and for the \<open>k\<close>-th profile query of one provisioning run (counted from 1),
  and the error, if any, with which the ledger rejects a note or a metadata update.
\<close>

record balance_json =
  balance :: "int option"
  currency :: "jsval option"

record order_json =
  order_number :: "jsval option"

record esim_json =
  json_iccid :: "jsval option"
  qr_code_url :: "jsval option"
  activation_link :: "jsval option"
  json_status :: "jsval option"

record esim_details =
  det_iccid :: "jsval option"
  qrCode :: "jsval option"
  activationLink :: "jsval option"
  det_status :: "jsval option"

record services =
  account_balance :: "js_error + balance_json"
  order_answer :: "js_error + order_json"
  esim_answer :: "nat \<Rightarrow> js_error + esim_json option"
  note_failure :: "js_error option"
  meta_failure :: "js_error option"

text \<open>What a run does to the outside, in the order it does it. \<open>Provision\<close> marks a
  call of \<open>provisionEsim\<close> with its arguments.\<close>

datatype effect =
    Respond reply
  | Provision "jsval option" "jsval option" jsval
  | ConsoleLog string
  | ConsoleError string
  | BalanceQuery
  | PlaceOrder string "jsval option" jsval
  | QueryProfile "jsval option"
  | Sleep nat
  | CreateOrderNote "jsval option" string bool
  | UpdateOrderMeta "jsval option" "(string \<times> jsval option) list"

type_synonym 'a run = "effect list \<times> (js_error + 'a)"

definition emit :: "effect list \<Rightarrow> effect list \<times> 'a \<Rightarrow> effect list \<times> 'a" where
  "emit fx m = (fx @ fst m, snd m)"

text \<open>Sequencing: a thrown error skips what follows.\<close>

definition bind_run :: "'a run \<Rightarrow> ('a \<Rightarrow> 'b run) \<Rightarrow> 'b run" where
  "bind_run m f = (case snd m of Inl e \<Rightarrow> (fst m, Inl e) | Inr a \<Rightarrow> emit (fst m) (f a))"

definition undefined_read :: "string \<Rightarrow> js_error" where
  "undefined_read k =
     TypeError (''Cannot read properties of undefined (reading '' @ [CHR 0x27] @ k @ [CHR 0x27] @ '')'')"

definition null_read :: "string \<Rightarrow> js_error" where
  "null_read k =
     TypeError (''Cannot read properties of null (reading '' @ [CHR 0x27] @ k @ [CHR 0x27] @ '')'')"

text \<open>The method call \<open>v.toString()\<close>.\<close>

definition toString :: "jsval option \<Rightarrow> js_error + string" where
  "toString v =
     (case v of
        None \<Rightarrow> Inl (undefined_read ''toString'')
      | Some JNull \<Rightarrow> Inl (null_read ''toString'')
      | Some x \<Rightarrow> Inr (to_string (Some x)))"

definition getAccountBalance :: "services \<Rightarrow> js_error + balance_json" where
  "getAccountBalance sv =
     (case account_balance sv of
        Inl e \<Rightarrow> Inl e
      | Inr data \<Rightarrow> Inr \<lparr>balance = balance data, currency = currency data\<rparr>)"

definition orderProfile :: "services \<Rightarrow> js_error + jsval option" where
  "orderProfile sv =
     (case order_answer sv of Inl e \<Rightarrow> Inl e | Inr data \<Rightarrow> Inr (order_number data))"

definition getEsimByOrderNumber :: "services \<Rightarrow> nat \<Rightarrow> js_error + esim_details" where
  "getEsimByOrderNumber sv k =
     (case esim_answer sv k of
        Inl e \<Rightarrow> Inl e
      | Inr None \<Rightarrow> Inl (undefined_read ''iccid'')
      | Inr (Some esim) \<Rightarrow>
          Inr \<lparr>det_iccid = json_iccid esim, qrCode = qr_code_url esim,
               activationLink = activation_link esim, det_status = json_status esim\<rparr>)"

definition createOrderNote :: "services \<Rightarrow> jsval option \<Rightarrow> string \<Rightarrow> bool \<Rightarrow> unit run" where
  "createOrderNote sv orderId note customerNote =
     ([CreateOrderNote orderId note customerNote],
      case note_failure sv of Some e \<Rightarrow> Inl e | None \<Rightarrow> Inr ())"

definition updateOrderMeta ::
  "services \<Rightarrow> jsval option \<Rightarrow> (string \<times> jsval option) list \<Rightarrow> unit run" where
  "updateOrderMeta sv orderId metaData =
     ([UpdateOrderMeta orderId (map (\<lambda>(key, v). (''_esim_'' @ key, v)) metaData)],
      case meta_failure sv of Some e \<Rightarrow> Inl e | None \<Rightarrow> Inr ())"

section \<open>Provisioning service\<close>

definition emoji_beginner :: string where
  "emoji_beginner = [CHR 0xF0, CHR 0x9F, CHR 0x94, CHR 0xB0]"

definition emoji_phone :: string where
  "emoji_phone = [CHR 0xF0, CHR 0x9F, CHR 0x93, CHR 0xB1]"

definition emoji_link :: string where
  "emoji_link = [CHR 0xF0, CHR 0x9F, CHR 0x94, CHR 0x97]"

definition emoji_camera :: string where
  "emoji_camera = [CHR 0xF0, CHR 0x9F, CHR 0x93, CHR 0xB8]"

definition emoji_cross :: string where
  "emoji_cross = [CHR 0xE2, CHR 0x9D, CHR 0x8C]"

definition emoji_rocket :: string where
  "emoji_rocket = [CHR 0xF0, CHR 0x9F, CHR 0x9A, CHR 0x80]"

definition emoji_check :: string where
  "emoji_check = [CHR 0xE2, CHR 0x9C, CHR 0x85]"


text \<open>
  The loop of \<open>pollEsimStatus\<close> from attempt \<open>i\<close> on. Attempt \<open>i\<close> makes the
  \<open>i\<close>-th query of the run. When the loop is exhausted the function ends without a
  \<open>return\<close>: its value is \<open>undefined\<close>.
\<close>

function pollEsimStatus_from ::
  "services \<Rightarrow> jsval option \<Rightarrow> nat \<Rightarrow> nat \<Rightarrow> esim_details option run" where
  "pollEsimStatus_from sv orderNumber maxRetries i =
     (if i \<le> maxRetries then
        (case getEsimByOrderNumber sv i of
           Inr result \<Rightarrow>
             if truthy (det_iccid result) then ([QueryProfile orderNumber], Inr (Some result))
             else emit [QueryProfile orderNumber, Sleep (3000 * 2 ^ i)]
                    (pollEsimStatus_from sv orderNumber maxRetries (Suc i))
         | Inl error \<Rightarrow>
             if i = maxRetries then ([QueryProfile orderNumber], Inl error)
             else emit [QueryProfile orderNumber, Sleep (3000 * 2 ^ i)]
                    (pollEsimStatus_from sv orderNumber maxRetries (Suc i)))
      else ([], Inr None))"
  by pat_completeness auto
termination
  by (relation "measure (\<lambda>(sv, orderNumber, maxRetries, i). Suc maxRetries - i)") auto

declare pollEsimStatus_from.simps [simp del]

definition pollEsimStatus :: "services \<Rightarrow> jsval option \<Rightarrow> esim_details option run" where
  "pollEsimStatus sv orderNumber = pollEsimStatus_from sv orderNumber 10 1"

definition formatEsimNote :: "esim_details option \<Rightarrow> js_error + string" where
  "formatEsimNote esim =
     (case esim of
        None \<Rightarrow> Inl (undefined_read ''iccid'')
      | Some d \<Rightarrow>
          Inr ([CHR 0x0A] @ emoji_beginner @ '' Your eSIM is ready!'' @ [CHR 0x0A]
               @ emoji_phone @ '' ICCID: '' @ to_string (det_iccid d) @ [CHR 0x0A]
               @ emoji_link @ '' Activation: '' @ to_string (activationLink d) @ [CHR 0x0A]
               @ emoji_camera @ '' QR: '' @ to_string (qrCode d) @ [CHR 0x0A] @ ''    ''))"

text \<open>The \<open>try\<close> block of \<open>provisionEsim\<close>.\<close>

definition provision_try ::
  "services \<Rightarrow> jsval option \<Rightarrow> jsval option \<Rightarrow> jsval \<Rightarrow> esim_details option run" where
  "provision_try sv orderId sku quantity =
     bind_run ([BalanceQuery], getAccountBalance sv) (\<lambda>bal.
       if (case balance bal of Some b \<Rightarrow> b < 10 | None \<Rightarrow> False)
       then ([], Inl (Error (''Insufficient balance: $''
                        @ (case balance bal of Some b \<Rightarrow> show_int b | None \<Rightarrow> ''undefined''))))
       else
     bind_run ([], toString orderId) (\<lambda>transactionId.
     bind_run ([PlaceOrder transactionId sku quantity], orderProfile sv) (\<lambda>orderNumber.
     bind_run ([Sleep 5000], Inr ()) (\<lambda>_.
     bind_run (pollEsimStatus sv orderNumber) (\<lambda>esimDetails.
     bind_run ([], formatEsimNote esimDetails) (\<lambda>note.
     bind_run (createOrderNote sv orderId note True) (\<lambda>_.
     bind_run (updateOrderMeta sv orderId
                 [(''iccid'', Option.bind esimDetails det_iccid),
                  (''qr_code'', Option.bind esimDetails qrCode),
                  (''activation_link'', Option.bind esimDetails activationLink),
                  (''status'', Some (JStr ''provisioned''))]) (\<lambda>_.
       ([ConsoleLog (emoji_check @ '' eSIM provisioned for order '' @ to_string orderId)],
        Inr esimDetails)))))))))"

text \<open>\<open>provisionEsim({ orderId, sku, quantity = 1 })\<close>: the \<open>try\<close> block, and the
  \<open>catch\<close> that writes the failure note and throws the error again.\<close>

definition provisionEsim ::
  "services \<Rightarrow> jsval option \<Rightarrow> jsval option \<Rightarrow> jsval option \<Rightarrow> esim_details option run" where
  "provisionEsim sv orderId sku quantity_arg =
     (let quantity = (case quantity_arg of None \<Rightarrow> JNum 1 | Some q \<Rightarrow> q);
          start = [Provision orderId sku quantity,
                   ConsoleLog (emoji_rocket @ '' Provisioning eSIM for order '' @ to_string orderId)];
          attempt = emit start (provision_try sv orderId sku quantity)
      in case snd attempt of
           Inr esimDetails \<Rightarrow> attempt
         | Inl error \<Rightarrow>
             bind_run
               (emit (fst attempt @ [ConsoleError (emoji_cross @ '' Provisioning failed: '' @ message error)])
                  (createOrderNote sv orderId
                     (emoji_cross @ '' eSIM provisioning failed: '' @ message error) True))
               (\<lambda>_. ([], Inl error)))"

section \<open>Order-completed trigger\<close>

record line_item =
  name :: "jsval option"
  sku :: "jsval option"
  item_product_id :: "jsval option"
  quantity :: "jsval option"













section \<open>Routes that read the store before they write\<close>

record request =
  req_user_id :: string
  req_role :: string
  req_ip :: "jsval option"
  req_user_agent :: "jsval option"

record http_reply =
  http_code :: nat
  success :: bool
  payload :: "jsval option"
  error_text :: "string option"
  error_message :: "string option"

text \<open>The rows a \<open>select\<close> returns carry only the columns it names.\<close>

definition select_user_id :: "esim \<Rightarrow> jsval" where
  "select_user_id e = JObj [(''user_id'', JStr (user_id e))]"


text \<open>Object spread \<open>{ ...v }\<close>; \<open>undefined\<close> and \<open>null\<close> spread to nothing.\<close>

definition spread :: "jsval option \<Rightarrow> (string \<times> jsval) list" where
  "spread v = (case v of Some (JObj fs) \<Rightarrow> fs | _ \<Rightarrow> [])"

text \<open>
  The route \<open>GET /esim/usage/:iccid\<close>. \<open>usage_answer\<close> is what the vendor's usage
  check returns or throws.
\<close>

definition usage_route ::
  "nat \<Rightarrow> request \<Rightarrow> string \<Rightarrow> js_error + jsval \<Rightarrow> world \<Rightarrow> http_reply \<times> world" where
  "usage_route now req iccid_param usage_answer w =
     (case single (map select_user_id (select_esims (eq_iccid (Some (JStr iccid_param))) w)) of
        None \<Rightarrow>
          (\<lparr>http_code = 404, success = False, payload = None,
            error_text = Some ''eSIM not found'', error_message = None\<rparr>, w)
      | Some esim \<Rightarrow>
          if js_prop esim ''user_id'' \<noteq> Some (JStr (req_user_id req)) \<and> req_role req \<noteq> ''admin''
          then (\<lparr>http_code = 403, success = False, payload = None,
                 error_text = Some ''You do not have permission to view this eSIM'',
                 error_message = None\<rparr>, w)
          else
            (case usage_answer of
               Inl error \<Rightarrow>
                 (\<lparr>http_code = 500, success = False, payload = None,
                   error_text = Some ''Failed to check usage'',
                   error_message = Some (message error)\<rparr>,
                  log_error ''Usage check error:'' (Exn error) w)
             | Inr usage \<Rightarrow>
                 (\<lparr>http_code = 200, success = True, payload = Some usage,
                   error_text = None, error_message = None\<rparr>,
                  snd (update_esims (eq_iccid (Some (JStr iccid_param)))
                     (\<lambda>e. e\<lparr>metadata := AList.update ''last_usage'' usage
                                           (spread (js_prop esim ''metadata'')),
                             updated_at := now\<rparr>) w))))"







text \<open>The timer that \<open>activateEsim\<close> starts; it runs after the response, at \<open>now\<close>.\<close>

definition activation_timer :: "nat \<Rightarrow> request \<Rightarrow> string \<Rightarrow> world \<Rightarrow> world" where
  "activation_timer now req esimId w =
     (let (updateError, w1) = update_esims (\<lambda>e. row_id e = esimId)
             (\<lambda>e. e\<lparr>status := ACTIVE, activated_at := Some (At now), updated_at := now\<rparr>) w
      in case updateError of
           Some err \<Rightarrow> w1
         | None \<Rightarrow>
             log_info (''eSIM activated successfully: '' @ esimId) NoMeta
               (snd (insert_activation_log
                  \<lparr>esim_id = Some (JStr esimId), action = ''ACTIVATED'',
                   log_user_id = Some (req_user_id req),
                   act_metadata = JObj [(''timestamp'', JNum (int now))],
                   act_created_at = now\<rparr> w1)))"

section \<open>Notions used in the statements\<close>

text \<open>The status each lifecycle event tag makes the route write, read off \<open>dispatch\<close>
  and the handlers; the theorems below prove that the code agrees.\<close>

definition lifecycle_target :: "string \<Rightarrow> esim_status option" where
  "lifecycle_target tag =
     (if tag = ''profile.activated'' then Some ACTIVE
      else if tag = ''profile.suspended'' then Some SUSPENDED
      else if tag = ''profile.unsuspended'' then Some ACTIVE
      else if tag = ''profile.cancelled'' then Some CANCELLED
      else if tag = ''profile.expired'' then Some EXPIRED
      else if tag = ''profile.revoked'' then Some REVOKED
      else None)"

definition terminal :: "esim_status \<Rightarrow> bool" where
  "terminal s = (s = CANCELLED \<or> s = EXPIRED \<or> s = REVOKED \<or> s = DEACTIVATED)"

text \<open>Fields of an entity that a metadata write must leave alone.\<close>

definition same_identity :: "esim \<Rightarrow> esim \<Rightarrow> bool" where
  "same_identity e e' =
     (row_id e' = row_id e \<and> iccid e' = iccid e \<and> user_id e' = user_id e \<and>
      order_id e' = order_id e)"

text \<open>The queries and waits of the attempts \<open>i\<close> up to \<open>k - 1\<close> that did not end the
  loop: each attempt queries first and waits afterwards.\<close>

definition rounds :: "jsval option \<Rightarrow> nat \<Rightarrow> nat \<Rightarrow> effect list" where
  "rounds orderNumber i k =
     concat (map (\<lambda>j. [QueryProfile orderNumber, Sleep (3000 * 2 ^ j)]) [i..<k])"

definition ready :: "services \<Rightarrow> nat \<Rightarrow> bool" where
  "ready sv j =
     (case getEsimByOrderNumber sv j of Inr r \<Rightarrow> truthy (det_iccid r) | Inl e \<Rightarrow> False)"

fun is_query :: "effect \<Rightarrow> bool" where
  "is_query (QueryProfile orderNumber) = True"
| "is_query fx = False"

fun is_place_order :: "effect \<Rightarrow> bool" where
  "is_place_order (PlaceOrder transactionId s q) = True"
| "is_place_order fx = False"

fun is_note :: "effect \<Rightarrow> bool" where
  "is_note (CreateOrderNote orderId note customerNote) = True"
| "is_note fx = False"

fun is_meta :: "effect \<Rightarrow> bool" where
  "is_meta (UpdateOrderMeta orderId metaData) = True"
| "is_meta fx = False"

fun is_provision :: "effect \<Rightarrow> bool" where
  "is_provision (Provision orderId s q) = True"
| "is_provision fx = False"

definition failure_note :: "js_error \<Rightarrow> string" where
  "failure_note error = emoji_cross @ '' eSIM provisioning failed: '' @ message error"

definition provisioned_meta :: "esim_details \<Rightarrow> (string \<times> jsval option) list" where
  "provisioned_meta d =
     [(''_esim_iccid'', det_iccid d), (''_esim_qr_code'', qrCode d),
      (''_esim_activation_link'', activationLink d),
      (''_esim_status'', Some (JStr ''provisioned''))]"

definition quantity_or_1 :: "jsval option \<Rightarrow> jsval" where
  "quantity_or_1 q = (case q of None \<Rightarrow> JNum 1 | Some v \<Rightarrow> v)"

definition start_effects :: "jsval option \<Rightarrow> jsval option \<Rightarrow> jsval \<Rightarrow> effect list" where
  "start_effects orderId s q =
     [Provision orderId s q,
      ConsoleLog (emoji_rocket @ '' Provisioning eSIM for order '' @ to_string orderId)]"

definition catch_effects :: "jsval option \<Rightarrow> js_error \<Rightarrow> effect list" where
  "catch_effects orderId error =
     [ConsoleError (emoji_cross @ '' Provisioning failed: '' @ message error),
      CreateOrderNote orderId (failure_note error) True]"

text \<open>The balance check of \<open>provisionEsim\<close> passes.\<close>

definition funded :: "services \<Rightarrow> bool" where
  "funded sv =
     (case account_balance sv of
        Inl e \<Rightarrow> False
      | Inr bal \<Rightarrow> (case balance bal of Some b \<Rightarrow> \<not> b < 10 | None \<Rightarrow> True))"

fun is_wait :: "effect \<Rightarrow> bool" where
  "is_wait (Sleep ms) = True"
| "is_wait fx = False"




section \<open>Example inputs\<close>

definition esim_X :: esim where
  "esim_X =
     \<lparr>row_id = ''ESIM-0001'', order_id = ''1001'', user_id = ''user-1'', product_id = ''p-7'',
      iccid = ''X'', activation_code = ''AC01'', status = CANCELLED, qr_code = ''qr'',
      metadata = [(''ip_address'', JStr ''10.0.0.1'')], created_at = 1, updated_at = 3,
      activated_at = Some (At 2), deactivated_at = Some (At 3),
      deactivation_reason = Some (JStr ''Cancelled by provider'')\<rparr>"

definition world_of :: "esim list \<Rightarrow> world" where
  "world_of es =
     \<lparr>available = True, esims = es, orders = [], system_logs = [],
      esim_activation_logs = [], user_notifications = [], system_notifications = [],
      journal = [], logger = []\<rparr>"

definition activated_X_fields :: "(string \<times> jsval) list" where
  "activated_X_fields = [(''event'', JStr ''profile.activated''), (''iccid'', JStr ''X'')]"

definition esim_P :: esim where
  "esim_P = esim_X\<lparr>status := PENDING_ACTIVATION, activated_at := None, deactivated_at := None,
                    deactivation_reason := None\<rparr>"

definition owner_request :: request where
  "owner_request =
     \<lparr>req_user_id = ''user-1'', req_role = ''customer'',
      req_ip = Some (JStr ''10.0.0.1''), req_user_agent = Some (JStr ''curl'')\<rparr>"

definition usage_example :: jsval where
  "usage_example = JObj [(''used'', JNum 3), (''total'', JNum 10)]"

definition suspended_X :: jsval where
  "suspended_X = JObj [(''event'', JStr ''profile.suspended''), (''iccid'', JStr ''X''),
                       (''reason'', JStr ''fraud'')]"

definition profile_ready :: esim_json where
  "profile_ready =
     \<lparr>json_iccid = Some (JStr ''8901260852291234567''),
      qr_code_url = Some (JStr ''https://vendor.example/qr/1''),
      activation_link = Some (JStr ''https://vendor.example/activate/1''),
      json_status = Some (JStr ''RELEASED'')\<rparr>"

definition profile_pending :: esim_json where
  "profile_pending =
     \<lparr>json_iccid = Some (JStr []), qr_code_url = None, activation_link = None,
      json_status = Some (JStr ''PENDING'')\<rparr>"

definition vendor_with :: "int \<Rightarrow> (nat \<Rightarrow> js_error + esim_json option) \<Rightarrow> services" where
  "vendor_with b answers =
     \<lparr>account_balance = Inr \<lparr>balance = Some b, currency = Some (JStr ''USD'')\<rparr>,
      order_answer = Inr \<lparr>order_number = Some (JStr ''ORD-9'')\<rparr>,
      esim_answer = answers, note_failure = None, meta_failure = None\<rparr>"

definition ready_at :: "nat \<Rightarrow> services" where
  "ready_at n =
     vendor_with 100 (\<lambda>k. if k < n then Inr (Some profile_pending) else Inr (Some profile_ready))"

definition never_ready :: services where
  "never_ready = vendor_with 100 (\<lambda>k. Inr (Some profile_pending))"

definition details_ready :: esim_details where
  "details_ready =
     \<lparr>det_iccid = Some (JStr ''8901260852291234567''),
      qrCode = Some (JStr ''https://vendor.example/qr/1''),
      activationLink = Some (JStr ''https://vendor.example/activate/1''),
      det_status = Some (JStr ''RELEASED'')\<rparr>"







section \<open>Delivery of a vendor event\<close>

lemma list_all2_map_same:
  "list_all2 P xs (map f xs) = (\<forall>x \<in> set xs. P x (f x))"
  by (simp add: list.rel_map list_all2_same)

lemmas handler_defs =
  handleProfileActivated_def handleProfileSuspended_def handleProfileUnsuspended_def
  handleProfileCancelled_def handleProfileExpired_def handleProfileRevoked_def

lemmas store_defs =
  update_esims_def insert_system_log_def insert_activation_log_def
  insert_user_notification_def insert_system_notification_def log_info_def log_error_def

text \<open>
  A request whose body is a JSON object never gets past \<open>JSON.parse\<close>: the route logs
  the parse error and answers 200 with that error; it issues no statement to the store.
\<close>

lemma webhook_object_body:
  "webhook now (ObjectBody fs) w
     = (ack_error object_body_error,
        w\<lparr>logger := logger w @ [LogError ''Webhook processing error:'' (Exn object_body_error)]\<rparr>)"
  by (simp add: webhook_def parse_body_def log_error_def)

text \<open>
  The handlers themselves have no guard: when the \<open>switch\<close> is reached with a lifecycle
  event, every entity with the event's ICCID gets the status the event stands for,
  whatever its status was.
\<close>

lemma lifecycle_handlers_overwrite_status:
  assumes "available w"
    and "map_of fs ''iccid'' = Some (JStr i)"
    and "lifecycle_target tag = Some st"
  shows "list_all2 (\<lambda>e e'. row_id e' = row_id e \<and> iccid e' = iccid e \<and>
                      user_id e' = user_id e \<and> order_id e' = order_id e \<and>
                      (if iccid e = i then status e' = st else e' = e))
           (esims w) (esims (dispatch now (Some (JStr tag)) (JObj fs) w))"
  using assms
  by (auto simp add: dispatch_def lifecycle_target_def handler_defs
        store_defs eq_iccid_def Let_def list_all2_map_same split: if_splits)

text \<open>
  Claim C1 at the delivery of \<open>{event: "profile.activated", iccid: "X"}\<close> for an entity
  that is CANCELLED. The entity stays as it is, but not because the event was taken for a
  no-op: \<open>JSON.parse\<close> throws on the body that is parsed already, so the answer carries
  an error, an error line is logged, and the \<open>switch\<close> is never reached.
\<close>

theorem C1_delivered_event_is_answered_with_an_error:
  "terminal (status esim_X) \<and>
   fst (webhook 9 (ObjectBody activated_X_fields) (world_of [esim_X]))
     = \<lparr>code = 200, received = True, reply_timestamp = None,
        reply_error = Some ''Unexpected token o in JSON at position 1''\<rparr> \<and>
   esims (snd (webhook 9 (ObjectBody activated_X_fields) (world_of [esim_X]))) = [esim_X] \<and>
   journal (snd (webhook 9 (ObjectBody activated_X_fields) (world_of [esim_X]))) = [] \<and>
   logger (snd (webhook 9 (ObjectBody activated_X_fields) (world_of [esim_X])))
     = [LogError ''Webhook processing error:'' (Exn object_body_error)]"
  by (simp add: webhook_object_body terminal_def esim_X_def world_of_def ack_error_def
        object_body_error_def)

text \<open>
  Claim C5 at the delivery of any JSON object. The insert into \<open>system_logs\<close> is never
  reached: the route leaves the tables and the journal as they were, writes the parse error
  (not the event) to the application logger, and answers 200 with the error.
\<close>

theorem C5_delivered_event_is_not_persisted:
  "system_logs (snd (webhook now (ObjectBody fs) w)) = system_logs w \<and>
   journal (snd (webhook now (ObjectBody fs) w)) = journal w \<and>
   esims (snd (webhook now (ObjectBody fs) w)) = esims w \<and>
   logger (snd (webhook now (ObjectBody fs) w))
     = logger w @ [LogError ''Webhook processing error:'' (Exn object_body_error)] \<and>
   fst (webhook now (ObjectBody fs) w) = ack_error object_body_error"
  by (simp add: webhook_object_body)

text \<open>
  Claim C6 at two deliveries of \<open>{event: "profile.activated", iccid: "X"}\<close>, at times 10
  and 20, for an entity that is pending. Both are answered 200 with the parse error; the
  entity is still pending, has no activation timestamp, and the activation log is empty.
\<close>

theorem C6_delivered_activation_is_not_applied:
  "fst (webhook 10 (ObjectBody activated_X_fields) (world_of [esim_P]))
     = ack_error object_body_error \<and>
   fst (webhook 20 (ObjectBody activated_X_fields)
          (snd (webhook 10 (ObjectBody activated_X_fields) (world_of [esim_P]))))
     = ack_error object_body_error \<and>
   map status (esims (snd (webhook 20 (ObjectBody activated_X_fields)
          (snd (webhook 10 (ObjectBody activated_X_fields) (world_of [esim_P]))))))
     = [PENDING_ACTIVATION] \<and>
   map activated_at (esims (snd (webhook 20 (ObjectBody activated_X_fields)
          (snd (webhook 10 (ObjectBody activated_X_fields) (world_of [esim_P]))))))
     = [None] \<and>
   esim_activation_logs (snd (webhook 20 (ObjectBody activated_X_fields)
          (snd (webhook 10 (ObjectBody activated_X_fields) (world_of [esim_P])))))
     = []"
  by (simp add: webhook_object_body esim_P_def esim_X_def world_of_def)

section \<open>Writes to the metadata map\<close>

lemma usage_ok_available:
  "http_code (fst (usage_route now req i ua w)) = 200 \<Longrightarrow> available w"
  by (cases "available w")
     (simp_all add: usage_route_def select_esims_def single_def)

text \<open>
  Claim C10. The usage route selects only the column \<open>user_id\<close>, so the object it
  spreads, \<open>esim.metadata\<close>, is \<open>undefined\<close>: when the route answers 200, every entity
  with the requested ICCID has exactly the metadata \<open>{last_usage: usage}\<close>, whatever was
  stored before. The suspended handler stores an object with the single key
  \<open>suspension_reason\<close> (holding the payload's reason; an \<open>undefined\<close> reason is dropped
  when the object is stored), the unsuspended handler the object
  \<open>{suspension_reason: null}\<close>. In all three the entity's id, ICCID, owning user and
  owning order are unchanged (and its status too in the usage route), and entities with
  another ICCID are untouched.
\<close>

theorem C10_metadata_is_replaced:
  "(http_code (fst (usage_route now req i (Inr usage) w)) = 200 \<longrightarrow>
      list_all2 (\<lambda>e e'. same_identity e e' \<and> status e' = status e \<and>
                   (if iccid e = i then metadata e' = [(''last_usage'', usage)] else e' = e))
        (esims w) (esims (snd (usage_route now req i (Inr usage) w)))) \<and>
   (available w \<longrightarrow>
      list_all2 (\<lambda>e e'. same_identity e e' \<and>
                   (if iccid e = to_string (js_prop d ''iccid'')
                    then status e' = SUSPENDED \<and>
                         metadata e' = obj_of [(''suspension_reason'', js_prop d ''reason'')]
                    else e' = e))
        (esims w) (esims (handleProfileSuspended now d w)) \<and>
      list_all2 (\<lambda>e e'. same_identity e e' \<and>
                   (if iccid e = to_string (js_prop d ''iccid'')
                    then status e' = ACTIVE \<and>
                         metadata e' = [(''suspension_reason'', JNull)]
                    else e' = e))
        (esims w) (esims (handleProfileUnsuspended now d w)))"
proof -
  have usage: "list_all2 (\<lambda>e e'. same_identity e e' \<and> status e' = status e \<and>
                   (if iccid e = i then metadata e' = [(''last_usage'', usage)] else e' = e))
        (esims w) (esims (snd (usage_route now req i (Inr usage) w)))"
    if ok: "http_code (fst (usage_route now req i (Inr usage) w)) = 200"
  proof -
    from ok have av: "available w" by (rule usage_ok_available)
    show ?thesis
    proof (cases "single (map select_user_id (select_esims (eq_iccid (Some (JStr i))) w))")
      case None
      with ok show ?thesis by (simp add: usage_route_def)
    next
      case (Some row)
      then obtain e0 where row: "row = select_user_id e0"
        by (auto simp add: single_def split: list.splits)
      have spread: "spread (js_prop row ''metadata'') = []"
        by (simp add: row select_user_id_def spread_def)
      show ?thesis
      proof (cases "js_prop row ''user_id'' \<noteq> Some (JStr (req_user_id req)) \<and> req_role req \<noteq> ''admin''")
        case True
        with ok Some show ?thesis by (simp add: usage_route_def)
      next
        case False
        have "snd (usage_route now req i (Inr usage) w)
            = snd (update_esims (eq_iccid (Some (JStr i)))
                     (\<lambda>e. e\<lparr>metadata := AList.update ''last_usage'' usage
                                           (spread (js_prop row ''metadata'')),
                             updated_at := now\<rparr>) w)"
          unfolding usage_route_def Some using False
          by (simp only: option.case sum.case if_False snd_conv)
        with av show ?thesis
          by (simp add: spread update_esims_def eq_iccid_def same_identity_def
                list_all2_map_same)
      qed
    qed
  qed
  have suspended: "list_all2 (\<lambda>e e'. same_identity e e' \<and>
                   (if iccid e = to_string (js_prop d ''iccid'')
                    then status e' = SUSPENDED \<and>
                         metadata e' = obj_of [(''suspension_reason'', js_prop d ''reason'')]
                    else e' = e))
        (esims w) (esims (handleProfileSuspended now d w))" if "available w"
    using that
    by (simp add: handleProfileSuspended_def update_esims_def eq_iccid_def same_identity_def
          Let_def list_all2_map_same split: option.splits)
  have unsuspended: "list_all2 (\<lambda>e e'. same_identity e e' \<and>
                   (if iccid e = to_string (js_prop d ''iccid'')
                    then status e' = ACTIVE \<and>
                         metadata e' = [(''suspension_reason'', JNull)]
                    else e' = e))
        (esims w) (esims (handleProfileUnsuspended now d w))" if "available w"
    using that
    by (simp add: handleProfileUnsuspended_def update_esims_def eq_iccid_def same_identity_def
          Let_def list_all2_map_same)
  from usage suspended unsuspended show ?thesis by blast
qed

lemma usage_example_ok:
  "http_code (fst (usage_route 30 owner_request ''X'' (Inr usage_example) (world_of [esim_X]))) = 200"
  by (simp add: usage_route_def select_esims_def single_def world_of_def esim_X_def eq_iccid_def
        select_user_id_def owner_request_def)

theorem C10_metadata_is_replaced_witness:
  "http_code (fst (usage_route 30 owner_request ''X'' (Inr usage_example) (world_of [esim_X]))) = 200 \<and>
   available (world_of [esim_X]) \<and>
   metadata esim_X = [(''ip_address'', JStr ''10.0.0.1'')] \<and>
   list_all2 (\<lambda>e e'. same_identity e e' \<and> status e' = status e \<and>
                (if iccid e = ''X'' then metadata e' = [(''last_usage'', usage_example)] else e' = e))
     (esims (world_of [esim_X]))
     (esims (snd (usage_route 30 owner_request ''X'' (Inr usage_example) (world_of [esim_X])))) \<and>
   list_all2 (\<lambda>e e'. same_identity e e' \<and>
                (if iccid e = to_string (js_prop suspended_X ''iccid'')
                 then status e' = SUSPENDED \<and>
                      metadata e' = obj_of [(''suspension_reason'', js_prop suspended_X ''reason'')]
                 else e' = e))
     (esims (world_of [esim_X])) (esims (handleProfileSuspended 30 suspended_X (world_of [esim_X]))) \<and>
   list_all2 (\<lambda>e e'. same_identity e e' \<and>
                (if iccid e = to_string (js_prop suspended_X ''iccid'')
                 then status e' = ACTIVE \<and> metadata e' = [(''suspension_reason'', JNull)]
                 else e' = e))
     (esims (world_of [esim_X])) (esims (handleProfileUnsuspended 30 suspended_X (world_of [esim_X])))"
proof -
  have a: "available (world_of [esim_X])"
    by (simp add: world_of_def)
  have m: "metadata esim_X = [(''ip_address'', JStr ''10.0.0.1'')]"
    by (simp add: esim_X_def)
  from C10_metadata_is_replaced
         [of 30 owner_request "''X''" usage_example "world_of [esim_X]" suspended_X]
       usage_example_ok a m
  show ?thesis by blast
qed

section \<open>The poll loop and the provisioning run\<close>

lemma rounds_empty: "rounds orderNumber k k = []"
  by (simp add: rounds_def)

lemma rounds_step:
  "i < k \<Longrightarrow> rounds orderNumber i k
     = QueryProfile orderNumber # Sleep (3000 * 2 ^ i) # rounds orderNumber (Suc i) k"
  by (simp add: rounds_def upt_conv_Cons)

lemma poll_step_ready:
  "i \<le> m \<Longrightarrow> getEsimByOrderNumber sv i = Inr r \<Longrightarrow> truthy (det_iccid r) \<Longrightarrow>
   pollEsimStatus_from sv orderNumber m i = ([QueryProfile orderNumber], Inr (Some r))"
  by (subst pollEsimStatus_from.simps) simp

lemma poll_step_throw:
  "getEsimByOrderNumber sv m = Inl e \<Longrightarrow>
   pollEsimStatus_from sv orderNumber m m = ([QueryProfile orderNumber], Inl e)"
  by (subst pollEsimStatus_from.simps) simp

lemma poll_step_retry:
  assumes "i \<le> m" and "\<not> ready sv i" and "\<forall>e. getEsimByOrderNumber sv i = Inl e \<longrightarrow> i \<noteq> m"
  shows "pollEsimStatus_from sv orderNumber m i
     = (QueryProfile orderNumber # Sleep (3000 * 2 ^ i)
          # fst (pollEsimStatus_from sv orderNumber m (Suc i)),
        snd (pollEsimStatus_from sv orderNumber m (Suc i)))"
proof (cases "getEsimByOrderNumber sv i")
  case (Inl e)
  with assms show ?thesis
    by (subst pollEsimStatus_from.simps) (simp add: emit_def)
next
  case (Inr r)
  with assms show ?thesis
    by (subst pollEsimStatus_from.simps) (simp add: emit_def ready_def)
qed

lemma poll_step_done:
  "m < i \<Longrightarrow> pollEsimStatus_from sv orderNumber m i = ([], Inr None)"
  by (subst pollEsimStatus_from.simps) simp

lemma poll_success:
  assumes "k \<le> m" and "getEsimByOrderNumber sv k = Inr r" and "truthy (det_iccid r)"
  shows "i \<le> k \<Longrightarrow> \<forall>j. i \<le> j \<and> j < k \<longrightarrow> \<not> ready sv j \<Longrightarrow>
         pollEsimStatus_from sv orderNumber m i
           = (rounds orderNumber i k @ [QueryProfile orderNumber], Inr (Some r))"
proof (induction "k - i" arbitrary: i)
  case 0
  then have "i = k" by simp
  with assms show ?case
    by (simp add: poll_step_ready rounds_empty)
next
  case (Suc n)
  then have lt: "i < k" and nr: "\<not> ready sv i" by auto
  from Suc have ih: "pollEsimStatus_from sv orderNumber m (Suc i)
      = (rounds orderNumber (Suc i) k @ [QueryProfile orderNumber], Inr (Some r))"
    by (intro Suc.hyps(1)) auto
  from lt assms(1) have im: "i \<le> m" "i \<noteq> m" by auto
  show ?case
    using poll_step_retry [of i m sv orderNumber] nr im ih
    by (simp add: rounds_step [OF lt])
qed

lemma poll_exhausted:
  "i \<le> Suc m \<Longrightarrow>
   \<forall>j. i \<le> j \<and> j \<le> m \<longrightarrow> (\<exists>r. getEsimByOrderNumber sv j = Inr r \<and> \<not> truthy (det_iccid r)) \<Longrightarrow>
   pollEsimStatus_from sv orderNumber m i = (rounds orderNumber i (Suc m), Inr None)"
proof (induction "Suc m - i" arbitrary: i)
  case 0
  then have "i = Suc m" by simp
  then show ?case
    by (simp add: poll_step_done rounds_empty)
next
  case (Suc n)
  then have im: "i \<le> m" by simp
  with Suc.prems obtain r where r: "getEsimByOrderNumber sv i = Inr r" "\<not> truthy (det_iccid r)"
    by blast
  from Suc have ih: "pollEsimStatus_from sv orderNumber m (Suc i)
      = (rounds orderNumber (Suc i) (Suc m), Inr None)"
    by (intro Suc.hyps(1)) auto
  from im have lt: "i < Suc m" by simp
  from r have nr: "\<not> ready sv i" by (simp add: ready_def)
  show ?case
    using poll_step_retry [of i m sv orderNumber] nr r im ih
    by (simp add: rounds_step [OF lt])
qed

lemma poll_shape:
  "i \<le> Suc m \<Longrightarrow>
   (\<exists>k. i \<le> k \<and> k \<le> m \<and>
        fst (pollEsimStatus_from sv orderNumber m i)
          = rounds orderNumber i k @ [QueryProfile orderNumber]) \<or>
   fst (pollEsimStatus_from sv orderNumber m i) = rounds orderNumber i (Suc m)"
proof (induction "Suc m - i" arbitrary: i)
  case 0
  then have "i = Suc m" by simp
  then show ?case
    by (simp add: poll_step_done rounds_empty)
next
  case (Suc n)
  then have im: "i \<le> m" by simp
  then have lt: "i < Suc m" by simp
  from Suc have ih:
    "(\<exists>k. Suc i \<le> k \<and> k \<le> m \<and>
        fst (pollEsimStatus_from sv orderNumber m (Suc i))
          = rounds orderNumber (Suc i) k @ [QueryProfile orderNumber]) \<or>
     fst (pollEsimStatus_from sv orderNumber m (Suc i)) = rounds orderNumber (Suc i) (Suc m)"
    by (intro Suc.hyps(1)) auto
  let ?this_run = "pollEsimStatus_from sv orderNumber m i"
  let ?next = "pollEsimStatus_from sv orderNumber m (Suc i)"
  have stop: ?case if "fst ?this_run = [QueryProfile orderNumber]"
  proof -
    from that have "fst ?this_run = rounds orderNumber i i @ [QueryProfile orderNumber]" 
      by (simp add: rounds_empty)
    with im show ?thesis by blast
  qed
  have continue: ?case
    if "fst ?this_run = QueryProfile orderNumber # Sleep (3000 * 2 ^ i) # fst ?next"
    using ih
  proof
    assume "\<exists>k. Suc i \<le> k \<and> k \<le> m \<and> fst ?next = rounds orderNumber (Suc i) k @ [QueryProfile orderNumber]"
    then obtain k where k: "Suc i \<le> k" "k \<le> m"
      "fst ?next = rounds orderNumber (Suc i) k @ [QueryProfile orderNumber]" by blast
    then have ik: "i < k" by simp
    from that k have "fst ?this_run = rounds orderNumber i k @ [QueryProfile orderNumber]"
      by (simp add: rounds_step [OF ik])
    with k ik show ?thesis by (intro disjI1 exI [of _ k]) simp
  next
    assume "fst ?next = rounds orderNumber (Suc i) (Suc m)"
    with that show ?thesis by (simp add: rounds_step [OF lt])
  qed
  show ?case
  proof (cases "ready sv i")
    case True
    then obtain r where "getEsimByOrderNumber sv i = Inr r" "truthy (det_iccid r)"
      by (auto simp add: ready_def split: sum.splits)
    with im show ?thesis by (intro stop) (simp add: poll_step_ready)
  next
    case False
    show ?thesis
    proof (cases "\<exists>e. getEsimByOrderNumber sv i = Inl e \<and> i = m")
      case True
      then show ?thesis by (intro stop) (auto simp add: poll_step_throw)
    next
      case no_throw: False
      then have "\<forall>e. getEsimByOrderNumber sv i = Inl e \<longrightarrow> i \<noteq> m" by blast
      from poll_step_retry [OF im False this, of orderNumber] show ?thesis
        by (intro continue) simp
    qed
  qed
qed

text \<open>\<open>provisionEsim\<close> in terms of its \<open>try\<close> block.\<close>

lemma provisionEsim_caught:
  "provision_try sv orderId s (quantity_or_1 q) = (fx, Inl error) \<Longrightarrow>
   provisionEsim sv orderId s q
     = (start_effects orderId s (quantity_or_1 q) @ fx @ catch_effects orderId error,
        Inl (case note_failure sv of Some e \<Rightarrow> e | None \<Rightarrow> error))"
  by (simp add: provisionEsim_def quantity_or_1_def start_effects_def catch_effects_def
        failure_note_def emit_def bind_run_def createOrderNote_def Let_def split: option.splits)

lemma provisionEsim_returned:
  "provision_try sv orderId s (quantity_or_1 q) = (fx, Inr d) \<Longrightarrow>
   provisionEsim sv orderId s q = (start_effects orderId s (quantity_or_1 q) @ fx, Inr d)"
  by (simp add: provisionEsim_def quantity_or_1_def start_effects_def emit_def Let_def)


lemma try_polls:
  assumes "funded sv" and "toString orderId = Inr tx" and "order_answer sv = Inr ord"
  shows "provision_try sv orderId s q
     = emit [BalanceQuery, PlaceOrder tx s q, Sleep 5000]
         (bind_run (pollEsimStatus sv (order_number ord)) (\<lambda>esimDetails.
          bind_run ([], formatEsimNote esimDetails) (\<lambda>note.
          bind_run (createOrderNote sv orderId note True) (\<lambda>_.
          bind_run (updateOrderMeta sv orderId
                 [(''iccid'', Option.bind esimDetails det_iccid),
                  (''qr_code'', Option.bind esimDetails qrCode),
                  (''activation_link'', Option.bind esimDetails activationLink),
                  (''status'', Some (JStr ''provisioned''))]) (\<lambda>_.
            ([ConsoleLog (emoji_check @ '' eSIM provisioned for order '' @ to_string orderId)],
             Inr esimDetails))))))"
  using assms
  by (auto simp add: provision_try_def funded_def bind_run_def getAccountBalance_def emit_def
        orderProfile_def split: sum.splits option.splits)

lemma try_success:
  assumes "funded sv" and "toString orderId = Inr tx" and "order_answer sv = Inr ord"
    and "pollEsimStatus sv (order_number ord) = (pfx, Inr (Some d))"
    and "formatEsimNote (Some d) = Inr note"
    and "note_failure sv = None" and "meta_failure sv = None"
  shows "provision_try sv orderId s q
     = ([BalanceQuery, PlaceOrder tx s q, Sleep 5000] @ pfx @
        [CreateOrderNote orderId note True, UpdateOrderMeta orderId (provisioned_meta d),
         ConsoleLog (emoji_check @ '' eSIM provisioned for order '' @ to_string orderId)],
        Inr (Some d))"
  unfolding try_polls [OF assms(1-3)]
  using assms(4-7)
  by (simp add: bind_run_def emit_def createOrderNote_def updateOrderMeta_def provisioned_meta_def)

lemma try_undefined:
  assumes "funded sv" and "toString orderId = Inr tx" and "order_answer sv = Inr ord"
    and "pollEsimStatus sv (order_number ord) = (pfx, Inr None)"
  shows "provision_try sv orderId s q
     = ([BalanceQuery, PlaceOrder tx s q, Sleep 5000] @ pfx, Inl (undefined_read ''iccid''))"
  unfolding try_polls [OF assms(1-3)]
  using assms(4)
  by (simp add: bind_run_def emit_def formatEsimNote_def)

lemma rounds_snoc:
  "i \<le> k \<Longrightarrow> rounds orderNumber i (Suc k)
     = rounds orderNumber i k @ [QueryProfile orderNumber, Sleep (3000 * 2 ^ k)]"
  by (simp add: rounds_def)

lemma rounds_filters:
  "i \<le> k \<Longrightarrow>
   filter is_note (rounds orderNumber i k) = [] \<and>
   filter is_meta (rounds orderNumber i k) = [] \<and>
   filter is_place_order (rounds orderNumber i k) = [] \<and>
   filter is_provision (rounds orderNumber i k) = [] \<and>
   length (filter is_query (rounds orderNumber i k)) = k - i"
proof (induction k)
  case 0
  then show ?case by (simp add: rounds_empty)
next
  case (Suc k)
  show ?case
  proof (cases "i = Suc k")
    case True
    then show ?thesis by (simp add: rounds_empty)
  next
    case False
    with Suc.prems have ik: "i \<le> k" by simp
    with Suc.IH show ?thesis by (simp add: rounds_snoc Suc_diff_le)
  qed
qed

lemma provisionEsim_effects:
  "fst (provisionEsim sv orderId s q)
     = start_effects orderId s (quantity_or_1 q) @ fst (provision_try sv orderId s (quantity_or_1 q))
       @ (case snd (provision_try sv orderId s (quantity_or_1 q)) of
            Inl error \<Rightarrow> catch_effects orderId error | Inr d \<Rightarrow> [])"
proof (cases "snd (provision_try sv orderId s (quantity_or_1 q))")
  case (Inl error)
  then have "provision_try sv orderId s (quantity_or_1 q)
      = (fst (provision_try sv orderId s (quantity_or_1 q)), Inl error)"
    by (metis prod.collapse)
  from provisionEsim_caught [OF this] Inl show ?thesis by simp
next
  case (Inr d)
  then have "provision_try sv orderId s (quantity_or_1 q)
      = (fst (provision_try sv orderId s (quantity_or_1 q)), Inr d)"
    by (metis prod.collapse)
  from provisionEsim_returned [OF this] Inr show ?thesis by simp
qed





lemma effects_filters:
  "filter is_note (start_effects orderId s q) = []"
  "filter is_meta (start_effects orderId s q) = []"
  "filter is_query (start_effects orderId s q) = []"
  "filter is_place_order (start_effects orderId s q) = []"
  "filter is_provision (start_effects orderId s q) = [Provision orderId s q]"
  "filter is_query (catch_effects orderId error) = []"
  "filter is_provision (catch_effects orderId error) = []"
  "filter is_place_order (catch_effects orderId error) = []"
  by (simp_all add: start_effects_def catch_effects_def)


lemma ready_at_answers:
  "getEsimByOrderNumber (ready_at n) k
     = Inr (if k < n
            then \<lparr>det_iccid = Some (JStr []), qrCode = None, activationLink = None,
                  det_status = Some (JStr ''PENDING'')\<rparr>
            else details_ready)"
  by (simp add: getEsimByOrderNumber_def ready_at_def vendor_with_def profile_pending_def
        profile_ready_def details_ready_def)

lemma ready_at_funded:
  "funded (ready_at n)" "order_answer (ready_at n) = Inr \<lparr>order_number = Some (JStr ''ORD-9'')\<rparr>"
  "note_failure (ready_at n) = None" "meta_failure (ready_at n) = None"
  by (simp_all add: funded_def ready_at_def vendor_with_def)

lemma toString_1001: "toString (Some (JNum 1001)) = Inr ''1001''"
  unfolding toString_def by code_simp


section \<open>Exhaustion and timing of the poll loop\<close>

lemma never_ready_answers:
  "getEsimByOrderNumber never_ready j
     = Inr \<lparr>det_iccid = Some (JStr []), qrCode = None, activationLink = None,
            det_status = Some (JStr ''PENDING'')\<rparr>"
  by (simp add: getEsimByOrderNumber_def never_ready_def vendor_with_def profile_pending_def)

lemma never_ready_funded:
  "funded never_ready" "order_answer never_ready = Inr \<lparr>order_number = Some (JStr ''ORD-9'')\<rparr>"
  "note_failure never_ready = None"
  by (simp_all add: funded_def never_ready_def vendor_with_def)

text \<open>
  Claim C3 at the vendor that answers every query with a profile whose ICCID is empty.
  \<open>pollEsimStatus\<close> makes its ten queries, waits after each of them, leaves the loop and
  returns \<open>undefined\<close>; it raises nothing. \<open>provisionEsim\<close> then fails where the note is
  formatted, with the TypeError of reading \<open>iccid\<close> of \<open>undefined\<close>.
\<close>

theorem C3_exhausted_poll_returns_undefined:
  "pollEsimStatus never_ready (Some (JStr ''ORD-9''))
     = (rounds (Some (JStr ''ORD-9'')) 1 11, Inr None) \<and>
   length (filter is_query
     (fst (provisionEsim never_ready (Some (JNum 1001)) (Some (JStr ''ESIM-EU-1'')) None))) = 10 \<and>
   snd (provisionEsim never_ready (Some (JNum 1001)) (Some (JStr ''ESIM-EU-1'')) None)
     = Inl (undefined_read ''iccid'')"
proof -
  have poll: "pollEsimStatus never_ready (Some (JStr ''ORD-9''))
      = (rounds (Some (JStr ''ORD-9'')) 1 11, Inr None)"
    unfolding pollEsimStatus_def
    using poll_exhausted [of 1 10 never_ready "Some (JStr ''ORD-9'')"]
    by (simp add: never_ready_answers)
  have poll': "pollEsimStatus never_ready (order_number \<lparr>order_number = Some (JStr ''ORD-9'')\<rparr>)
      = (rounds (Some (JStr ''ORD-9'')) 1 11, Inr None)"
    using poll by simp
  note tried = try_undefined [OF never_ready_funded(1) toString_1001 never_ready_funded(2) poll',
      of "Some (JStr ''ESIM-EU-1'')" "quantity_or_1 None"]
  note ran = provisionEsim_caught [OF tried]
  from rounds_filters [of 1 11 "Some (JStr ''ORD-9'')"]
  have "length (filter is_query
     (fst (provisionEsim never_ready (Some (JNum 1001)) (Some (JStr ''ESIM-EU-1'')) None))) = 10"
    by (simp add: ran effects_filters)
  moreover have "snd (provisionEsim never_ready (Some (JNum 1001)) (Some (JStr ''ESIM-EU-1'')) None)
     = Inl (undefined_read ''iccid'')"
    by (simp add: ran never_ready_funded)
  ultimately show ?thesis using poll by blast
qed

lemma try_after_poll:
  assumes "funded sv" and "toString orderId = Inr tx" and "order_answer sv = Inr ord"
  shows "\<exists>after. fst (provision_try sv orderId s q)
            = [BalanceQuery, PlaceOrder tx s q, Sleep 5000]
              @ fst (pollEsimStatus sv (order_number ord)) @ after \<and>
          filter is_query after = []"
proof -
  obtain pfx pr where p: "pollEsimStatus sv (order_number ord) = (pfx, pr)"
    by (cases "pollEsimStatus sv (order_number ord)")
  show ?thesis
    unfolding try_polls [OF assms] p
    by (cases pr; cases "note_failure sv"; cases "meta_failure sv")
       (auto simp add: bind_run_def emit_def createOrderNote_def updateOrderMeta_def
          formatEsimNote_def split: option.splits)
qed

lemma try_without_poll:
  assumes "\<not> (funded sv \<and> (\<exists>tx. toString orderId = Inr tx) \<and> (\<exists>ord. order_answer sv = Inr ord))"
  shows "filter is_query (fst (provision_try sv orderId s q)) = []"
  using assms
  by (auto simp add: provision_try_def funded_def bind_run_def getAccountBalance_def emit_def
        orderProfile_def split: sum.splits option.splits)

text \<open>
  Claim C4, as the code has it. Each attempt of the poll loop queries first; an attempt
  \<open>j\<close> that does not end the loop is followed by a wait of \<open>3000 * 2 ^ j\<close> ms. So the
  effects of \<open>pollEsimStatus\<close> are the rounds (query, wait) of the attempts before the
  last one and then the last query, or ten full rounds when the loop is exhausted. In
  \<open>provisionEsim\<close> the fixed wait of 5000 ms comes right before the loop, and no query
  is made outside the loop: no query is issued before that wait has passed.
\<close>

theorem C4_wait_follows_query:
  "((\<exists>k. 1 \<le> k \<and> k \<le> 10 \<and>
        fst (pollEsimStatus sv orderNumber) = rounds orderNumber 1 k @ [QueryProfile orderNumber]) \<or>
    fst (pollEsimStatus sv orderNumber) = rounds orderNumber 1 11) \<and>
   (filter is_query (fst (provisionEsim sv orderId s q)) = [] \<or>
    (\<exists>before (ord :: order_json) after.
        fst (provisionEsim sv orderId s q)
          = before @ Sleep 5000 # fst (pollEsimStatus sv (order_number ord)) @ after \<and>
        filter is_query before = [] \<and> filter is_query after = []))"
proof
  from poll_shape [of 1 10 sv orderNumber]
  show "(\<exists>k. 1 \<le> k \<and> k \<le> 10 \<and>
        fst (pollEsimStatus sv orderNumber) = rounds orderNumber 1 k @ [QueryProfile orderNumber]) \<or>
    fst (pollEsimStatus sv orderNumber) = rounds orderNumber 1 11"
    by (simp add: pollEsimStatus_def)
next
  define qty where "qty = quantity_or_1 q"
  define rest where "rest = (case snd (provision_try sv orderId s qty) of
            Inl error \<Rightarrow> catch_effects orderId error | Inr d \<Rightarrow> [])"
  have rest: "filter is_query rest = []"
    by (simp add: rest_def effects_filters split: sum.splits)
  have run: "fst (provisionEsim sv orderId s q)
      = start_effects orderId s qty @ fst (provision_try sv orderId s qty) @ rest"
    by (simp add: provisionEsim_effects qty_def rest_def)
  show "filter is_query (fst (provisionEsim sv orderId s q)) = [] \<or>
    (\<exists>before (ord :: order_json) after.
        fst (provisionEsim sv orderId s q)
          = before @ Sleep 5000 # fst (pollEsimStatus sv (order_number ord)) @ after \<and>
        filter is_query before = [] \<and> filter is_query after = [])"
  proof (cases "funded sv \<and> (\<exists>tx. toString orderId = Inr tx) \<and> (\<exists>ord. order_answer sv = Inr ord)")
    case True
    then obtain tx ord where ok: "funded sv" "toString orderId = Inr tx" "order_answer sv = Inr ord"
      by blast
    from try_after_poll [OF ok, of s qty] obtain after where
      after: "fst (provision_try sv orderId s qty)
            = [BalanceQuery, PlaceOrder tx s qty, Sleep 5000]
              @ fst (pollEsimStatus sv (order_number ord)) @ after"
        "filter is_query after = []" by blast
    define before where "before = start_effects orderId s qty @ [BalanceQuery, PlaceOrder tx s qty]"
    have whole: "fst (provisionEsim sv orderId s q)
        = before @ Sleep 5000 # fst (pollEsimStatus sv (order_number ord)) @ (after @ rest)"
      by (simp add: run after(1) before_def)
    have quiet_before: "filter is_query before = []"
      by (simp add: before_def effects_filters)
    have quiet_after: "filter is_query (after @ rest) = []"
      using after(2) rest by simp
    from whole quiet_before quiet_after show ?thesis
      by blast
  next
    case False
    from try_without_poll [OF this, of s qty] rest
    have "filter is_query (fst (provisionEsim sv orderId s q)) = []"
      by (simp add: run effects_filters)
    then show ?thesis by blast
  qed
qed

text \<open>
  Claim C4 as stated fails: with a profile that is ready at the second attempt, the only
  wait before the first query is the grace delay of 5000 ms, not \<open>3000 * 2 ^ 1\<close>, and
  the second query comes after \<open>3000 * 2 ^ 1\<close> ms, not \<open>3000 * 2 ^ 2\<close>.
\<close>

theorem C4_first_query_follows_grace_delay_only:
  "filter (\<lambda>fx. is_wait fx \<or> is_query fx)
     (fst (provisionEsim (ready_at 2) (Some (JNum 1001)) (Some (JStr ''ESIM-EU-1'')) None))
     = [Sleep 5000, QueryProfile (Some (JStr ''ORD-9'')), Sleep (3000 * 2 ^ 1),
        QueryProfile (Some (JStr ''ORD-9''))]"
proof -
  let ?on = "Some (JStr ''ORD-9'')"
  have nr: "\<forall>j. 1 \<le> j \<and> j < 2 \<longrightarrow> \<not> ready (ready_at 2) j"
    by (simp add: ready_def ready_at_answers)
  have poll: "pollEsimStatus (ready_at 2) (order_number \<lparr>order_number = ?on\<rparr>)
      = (rounds ?on 1 2 @ [QueryProfile ?on], Inr (Some details_ready))"
    unfolding pollEsimStatus_def
    using poll_success [of 2 10 "ready_at 2" details_ready 1 ?on] nr
    by (simp add: ready_at_answers details_ready_def)
  obtain body where body: "formatEsimNote (Some details_ready) = Inr body"
    by (simp add: formatEsimNote_def)
  note tried = try_success [OF ready_at_funded(1) toString_1001 ready_at_funded(2) poll body
      ready_at_funded(3,4), of "Some (JStr ''ESIM-EU-1'')" "quantity_or_1 None"]
  note ran = provisionEsim_returned [OF tried]
  have r: "rounds ?on (Suc 0) 2 = [QueryProfile ?on, Sleep (3000 * 2 ^ 1)]"
    by (simp add: rounds_def upt_rec)
  show ?thesis
    by (simp add: ran r start_effects_def)
qed

section \<open>The order-completed trigger\<close>

















section \<open>Duplicate provisioning\<close>









end
